theory Spec2Isabelle
  imports Complex_Main "HOL-Library.Sublist"
begin

section \<open>The figure generator and its surroundings\<close>

text \<open>
  The program is one Python script, \<^verbatim>\<open>generate_section3_figures (1).py\<close>. It draws four
  figures with matplotlib and saves each as a PNG and a PDF file. What the script does
  beyond computing values is written out as state passing over a record \<open>world\<close>: the file
  system, the console, pyplot's registry of open figures, numpy's global generator, the
  clock, the command line and the environment variables.
  A call that can raise returns \<open>exn option \<times> world\<close>: \<open>None\<close> is the normal return, and the
  world after a raise keeps every change made before it, as in Python.
\<close>

subsection \<open>Files, exceptions, random data, figures\<close>

text \<open>
  A path is the list of its components, so that \<^verbatim>\<open>os.path.join(d, f)\<close> appends one
  component and the parent directory is \<open>butlast\<close>.
\<close>

type_synonym path = "string list"

type_synonym bytes = "nat list"

datatype fmt = PNG | PDF

datatype node = Dir | File bytes

text \<open>
  What the script can see raised: the \<^verbatim>\<open>OSError\<close> family of the file system,
  \<^verbatim>\<open>ValueError\<close> for a file format that matplotlib does not know, \<^verbatim>\<open>UnicodeEncodeError\<close>
  of a \<^verbatim>\<open>print\<close> whose text the standard output cannot encode, \<^verbatim>\<open>ImportError\<close>, and
  \<open>LibraryError\<close> for anything else a matplotlib or numpy call raises. All of these are
  instances of Python's class \<^verbatim>\<open>Exception\<close>. \<^verbatim>\<open>KeyboardInterrupt\<close> is not: it derives from
  \<^verbatim>\<open>BaseException\<close> only.
\<close>

datatype exn =
    FileExistsError path
  | FileNotFoundError path
  | NotADirectoryError path
  | IsADirectoryError path
  | PermissionError path
  | ValueError string
  | UnicodeEncodeError
  | ImportError string
  | LibraryError string
  | KeyboardInterrupt

text \<open>\<^verbatim>\<open>isinstance(x, Exception)\<close>, which is what \<^verbatim>\<open>except Exception\<close> tests.\<close>

fun is_Exception :: "exn \<Rightarrow> bool" where
  "is_Exception KeyboardInterrupt = False"
| "is_Exception x = True"

text \<open>
  numpy's global generator. Its state is the seed it was last given (or the entropy the
  process started with) and the requests served since. The value of a draw is determined
  by the state before it and the request; it is kept symbolic, since the figures only
  display it.
\<close>

datatype draw =
    Rand "nat list"
  | Uniform rat rat "nat list"
  | Randn nat
  | Beta nat nat nat

datatype seed = Entropy nat | Seed nat

datatype rng = Rng seed "draw list"

datatype sample = Sample rng draw

text \<open>
  An annotation is a text of literal pieces and interpolated values, as an f-string has
  them. \<open>Num\<close> is an interpolated integer. \<open>Flt v xs\<close> is an interpolated floating-point
  variable \<open>v\<close> of the source computed from the random arrays \<open>xs\<close>; its value is not evaluated.
\<close>

datatype piece = Txt string | Num int | Flt string "sample list"

type_synonym annotation = "piece list"

text \<open>
  A figure object. The drawing calls with literal coordinates, colours and literal strings
  are the same at every call and are left out; what is kept is the size, the title, the
  random arrays shown and the annotations that interpolate a value.
\<close>

record figure =
  figsize :: "nat \<times> nat"
  title :: string
  arrays :: "sample list"
  annotations :: "annotation list"

text \<open>
  One element per line that the script prints. \<open>Checked\<close> is a message that starts with
  the mark U+2713 and \<open>Bullet\<close> one that holds the mark U+2022; the lines \<open>Saved\<close>
  (line 35, mark U+2713) and \<open>Error\<close> (lines 492 and 1029, mark U+2717) hold a mark too. \<open>Traceback\<close> is what \<^verbatim>\<open>traceback.print_exc()\<close> or the interpreter writes
  to the standard error stream.
\<close>

datatype line =
    Rule
  | Blank
  | Text string
  | Checked string
  | Bullet string
  | Generating nat nat string
  | Saved string
  | Error exn
  | Traceback exn

text \<open>The lines whose text is not ASCII.\<close>

fun has_mark :: "line \<Rightarrow> bool" where
  "has_mark (Checked s) = True"
| "has_mark (Bullet s) = True"
| "has_mark (Saved name) = True"
| "has_mark (Error x) = True"
| "has_mark l = False"

text \<open>
  What lies outside the repository, as the Python runtime, numpy, matplotlib and the
  operating system behave. Several of them read the environment variables, which they
  are handed here:
  \<^item> \<open>encode\<close>: the bytes a matplotlib backend produces for a figure, given the creation
    date that it writes into the file;
  \<^item> \<open>stamp\<close>: that creation date, from the environment (\<^verbatim>\<open>SOURCE_DATE_EPOCH\<close>) and the
    clock;
  \<^item> \<open>stdout_encodes\<close>: whether the standard output can encode the marks (it follows the
    locale and \<^verbatim>\<open>PYTHONIOENCODING\<close>);
  \<^item> \<open>import_raises\<close>: whether the imports and the style calls of lines 10 to 24 raise
    (they follow \<^verbatim>\<open>MPLBACKEND\<close> among others);
  \<^item> \<open>lib_raises\<close>: whether the library calls that draw and lay out a figure raise, by
    figure identifier;
  \<^item> \<open>os_raises\<close>: whether the operating system refuses to create or to write a path,
    which may depend on whether something exists at the path already.
\<close>

record env =
  encode :: "fmt \<Rightarrow> figure \<Rightarrow> nat \<Rightarrow> bytes"
  stamp :: "(string \<rightharpoonup> string) \<Rightarrow> nat \<Rightarrow> nat"
  stdout_encodes :: "(string \<rightharpoonup> string) \<Rightarrow> bool"
  import_raises :: "(string \<rightharpoonup> string) \<Rightarrow> exn option"
  lib_raises :: "(string \<rightharpoonup> string) \<Rightarrow> string \<Rightarrow> exn option"
  os_raises :: "path \<Rightarrow> bool \<Rightarrow> exn option"

text \<open>
  The state of one process and of the disk. \<open>saved\<close> is the trace of completed file
  writes, in order. \<open>argv\<close> and \<open>environ\<close> are the command line and the environment
  variables the process was started with, \<open>clock\<close> is the time of the run (one reading
  for the whole run: that the clock advances between two writes of one run is not
  modelled).
\<close>

record world =
  fs :: "path \<rightharpoonup> node"
  console :: "line list"
  open_figs :: "nat list"
  np_random :: rng
  saved :: "(path \<times> fmt \<times> figure) list"
  argv :: "string list"
  environ :: "string \<rightharpoonup> string"
  clock :: nat

text \<open>A process that has just started: nothing printed, no figure open, nothing written.\<close>

definition boot ::
  "(path \<rightharpoonup> node) \<Rightarrow> nat \<Rightarrow> string list \<Rightarrow> (string \<rightharpoonup> string) \<Rightarrow> nat \<Rightarrow> world" where
  "boot F k a v c =
     \<lparr>fs = F, console = [], open_figs = [], np_random = Rng (Entropy k) [],
      saved = [], argv = a, environ = v, clock = c\<rparr>"

subsection \<open>Library calls\<close>

text \<open>
  \<^verbatim>\<open>print(...)\<close> encodes the whole text before it writes: a line with a mark raises
  \<^verbatim>\<open>UnicodeEncodeError\<close> on a standard output that cannot encode it, and writes nothing.
\<close>

definition print :: "env \<Rightarrow> line \<Rightarrow> world \<Rightarrow> exn option \<times> world" where
  "print e l w =
     (if has_mark l \<and> \<not> stdout_encodes e (environ w) then (Some UnicodeEncodeError, w)
      else (None, w\<lparr>console := console w @ [l]\<rparr>))"

text \<open>The standard error stream escapes what it cannot encode: writing to it does not raise.\<close>

definition traceback_print_exc :: "exn \<Rightarrow> world \<Rightarrow> world" where
  "traceback_print_exc x w = w\<lparr>console := console w @ [Traceback x]\<rparr>"

text \<open>One statement after the other: the second runs if the first has not raised.\<close>

definition andthen ::
  "(world \<Rightarrow> exn option \<times> world) \<Rightarrow> (world \<Rightarrow> exn option \<times> world) \<Rightarrow> world \<Rightarrow> exn option \<times> world" where
  "andthen f g w = (case f w of (Some x, w1) \<Rightarrow> (Some x, w1) | (None, w1) \<Rightarrow> g w1)"

fun prints :: "env \<Rightarrow> line list \<Rightarrow> world \<Rightarrow> exn option \<times> world" where
  "prints e [] w = (None, w)"
| "prints e (l # ls) w =
     (case print e l w of (Some x, w1) \<Rightarrow> (Some x, w1) | (None, w1) \<Rightarrow> prints e ls w1)"

definition os_path_join :: "path \<Rightarrow> string \<Rightarrow> path" where
  "os_path_join d f = d @ [f]"

text \<open>
  \<^verbatim>\<open>os.makedirs(p, exist_ok=True)\<close>: an existing directory is accepted, an existing file
  raises \<^verbatim>\<open>FileExistsError\<close>, and otherwise the directory is created unless the operating
  system refuses.
\<close>

definition os_makedirs :: "env \<Rightarrow> path \<Rightarrow> world \<Rightarrow> exn option \<times> world" where
  "os_makedirs e p w =
     (case fs w p of
        Some Dir \<Rightarrow> (None, w)
      | Some (File c) \<Rightarrow> (Some (FileExistsError p), w)
      | None \<Rightarrow>
          (case os_raises e p False of
             Some x \<Rightarrow> (Some x, w)
           | None \<Rightarrow> (None, w\<lparr>fs := (fs w)(p \<mapsto> Dir)\<rparr>)))"

text \<open>
  Opening \<open>p\<close> for writing: the exception it raises, if any. The operating system is
  asked with the fact whether \<open>p\<close> exists, since replacing a file can be refused where
  creating it was not.
\<close>

definition open_wb :: "env \<Rightarrow> path \<Rightarrow> (path \<rightharpoonup> node) \<Rightarrow> exn option" where
  "open_wb e p F =
     (case F (butlast p) of
        None \<Rightarrow> Some (FileNotFoundError p)
      | Some (File c) \<Rightarrow> Some (NotADirectoryError p)
      | Some Dir \<Rightarrow>
          (case F p of
             Some Dir \<Rightarrow> Some (IsADirectoryError p)
           | _ \<Rightarrow> os_raises e p (F p \<noteq> None)))"

definition ends_with :: "string \<Rightarrow> string \<Rightarrow> bool" where
  "ends_with s x = (length s \<le> length x \<and> drop (length x - length s) x = s)"

text \<open>matplotlib takes the file format from the extension of the file name.\<close>

definition format_of :: "path \<Rightarrow> fmt option" where
  "format_of p =
     (if p = [] then None
      else if ends_with ''.png'' (last p) then Some PNG
      else if ends_with ''.pdf'' (last p) then Some PDF
      else None)"

text \<open>
  \<^verbatim>\<open>fig.savefig(p, ...)\<close>: the file at \<open>p\<close> is created or replaced by the figure as the
  backend encodes it at the creation date of this run. A call that raises leaves the
  file system as it was.
\<close>

definition savefig :: "env \<Rightarrow> figure \<Rightarrow> path \<Rightarrow> world \<Rightarrow> exn option \<times> world" where
  "savefig e fig p w =
     (case format_of p of
        None \<Rightarrow> (Some (ValueError ''unsupported format''), w)
      | Some f \<Rightarrow>
          (case open_wb e p (fs w) of
             Some x \<Rightarrow> (Some x, w)
           | None \<Rightarrow>
               (None, w\<lparr>fs := (fs w)(p \<mapsto> File (encode e f fig (stamp e (environ w) (clock w)))),
                         saved := saved w @ [(p, f, fig)]\<rparr>)))"

text \<open>
  \<^verbatim>\<open>plt.figure(...)\<close> registers a new figure under the next free number and makes it the
  current one (the last of the list); \<^verbatim>\<open>plt.close()\<close> closes the current figure.
\<close>

definition plt_figure :: "world \<Rightarrow> world" where
  "plt_figure w = w\<lparr>open_figs := open_figs w @ [Suc (fold max (open_figs w) 0)]\<rparr>"

definition plt_close :: "world \<Rightarrow> world" where
  "plt_close w = w\<lparr>open_figs := butlast (open_figs w)\<rparr>"

definition np_random_seed :: "nat \<Rightarrow> world \<Rightarrow> world" where
  "np_random_seed s w = w\<lparr>np_random := Rng (Seed s) []\<rparr>"

definition np_random_draw :: "draw \<Rightarrow> world \<Rightarrow> sample \<times> world" where
  "np_random_draw d w =
     (Sample (np_random w) d,
      w\<lparr>np_random := (case np_random w of Rng s h \<Rightarrow> Rng s (h @ [d]))\<rparr>)"

text \<open>\<^verbatim>\<open>np.cumsum\<close> on a list of integers.\<close>

fun cumsum_from :: "int \<Rightarrow> int list \<Rightarrow> int list" where
  "cumsum_from acc [] = []"
| "cumsum_from acc (x # xs) = (acc + x) # cumsum_from (acc + x) xs"

definition np_cumsum :: "int list \<Rightarrow> int list" where
  "np_cumsum xs = cumsum_from 0 xs"

subsection \<open>Saving a figure\<close>

definition OUTPUT_DIR :: path where
  "OUTPUT_DIR = [''paper_figures_section3'']"

definition png_path :: "string \<Rightarrow> path" where
  "png_path name = os_path_join OUTPUT_DIR (name @ ''.png'')"

definition pdf_path :: "string \<Rightarrow> path" where
  "pdf_path name = os_path_join OUTPUT_DIR (name @ ''.pdf'')"

text \<open>
  \<^verbatim>\<open>save_figure(fig, name)\<close>, lines 29 to 35: the PNG, then the PDF, then the message.
\<close>

definition save_figure :: "env \<Rightarrow> figure \<Rightarrow> string \<Rightarrow> world \<Rightarrow> exn option \<times> world" where
  "save_figure e fig name w =
     (case savefig e fig (png_path name) w of
        (Some x, w1) \<Rightarrow> (Some x, w1)
      | (None, w1) \<Rightarrow>
          (case savefig e fig (pdf_path name) w1 of
             (Some x, w2) \<Rightarrow> (Some x, w2)
           | (None, w2) \<Rightarrow> print e (Saved name) w2))"

text \<open>
  The last three statements of every figure function: \<^verbatim>\<open>plt.tight_layout(...)\<close>,
  \<^verbatim>\<open>save_figure(fig, name)\<close>, \<^verbatim>\<open>plt.close()\<close>. A library exception of the function's
  body is observed here, at the end of the drawing: until then the body changes only the
  figure object and the generator.
\<close>

definition layout_save_close :: "env \<Rightarrow> figure \<Rightarrow> string \<Rightarrow> world \<Rightarrow> exn option \<times> world" where
  "layout_save_close e fig name w =
     (case lib_raises e (environ w) name of
        Some x \<Rightarrow> (Some x, w)
      | None \<Rightarrow>
          (case save_figure e fig name w of
             (Some x, w1) \<Rightarrow> (Some x, w1)
           | (None, w1) \<Rightarrow> (None, plt_close w1)))"

subsection \<open>The four figure functions\<close>

text \<open>\<^verbatim>\<open>plot_system_architecture\<close>, lines 42 to 309. It draws no random data.\<close>

definition plot_system_architecture :: "env \<Rightarrow> world \<Rightarrow> exn option \<times> world" where
  "plot_system_architecture e w =
     (let w1 = plt_figure w;
          fig = \<lparr>figsize = (18, 12),
                 title = ''Figure 3. ST-RL Nav System Architecture'',
                 arrays = [], annotations = []\<rparr>
      in layout_save_close e fig ''figure3_system_architecture'' w1)"

text \<open>The arrow U+2193 of the second entropy annotation, in UTF-8.\<close>

definition down_arrow :: string where
  "down_arrow = [CHR 0xE2, CHR 0x86, CHR 0x93]"

text \<open>
  \<^verbatim>\<open>plot_haa_uq_mechanism\<close>, lines 316 to 465. The two entropy annotations (lines 398 to
  414) interpolate floating-point values computed from \<open>std_attn\<close>.
\<close>

definition plot_haa_uq_mechanism :: "env \<Rightarrow> world \<Rightarrow> exn option \<times> world" where
  "plot_haa_uq_mechanism e w =
     (let w1 = plt_figure w;
          w2 = np_random_seed 42 w1;
          (patch_img, w3) = np_random_draw (Rand [8, 8]) w2;
          (regional_img, w4) = np_random_draw (Rand [4, 4]) w3;
          (combined, w5) = np_random_draw (Rand [8, 8]) w4;
          (std_attn, w6) = np_random_draw (Uniform (1 / 100) (3 / 100) [8, 8]) w5;
          fig = \<lparr>figsize = (18, 10),
                 title = ''Figure 4. Hierarchical Aliasing-Aware Attention with Uncertainty Quantification (HAA-UQ)'',
                 arrays = [patch_img, regional_img, combined, std_attn],
                 annotations =
                   [[Txt ''Entropy: '', Flt ''entropy_std'' [std_attn], Txt '' (HIGH)''],
                    [Txt ''Entropy: '', Flt ''entropy_haa'' [],
                     Txt ('' (LOW, '' @ down_arrow),
                     Flt ''(entropy_std-entropy_haa)/entropy_std*100'' [std_attn],
                     Txt ''%)'']]\<rparr>
      in layout_save_close e fig ''figure4_haa_uq_mechanism'' w6)"

text \<open>\<^verbatim>\<open>plot_pi_cmdr_pipeline\<close>, lines 510 to 745.\<close>

definition plot_pi_cmdr_pipeline :: "env \<Rightarrow> world \<Rightarrow> exn option \<times> world" where
  "plot_pi_cmdr_pipeline e w =
     (let w1 = plt_figure w;
          w2 = np_random_seed 42 w1;
          (depth_visual, w3) = np_random_draw (Rand [10, 10]) w2;
          fig = \<lparr>figsize = (18, 10),
                 title = ''Figure 5. Physics-Informed Cross-Modal Depth Refinement (PI-CMDR) Pipeline'',
                 arrays = [depth_visual], annotations = []\<rparr>
      in layout_save_close e fig ''figure5_pi_cmdr_pipeline'' w3)"

text \<open>
  The loop of lines 872 to 874: \<^verbatim>\<open>stage_diff = np.random.beta(i+1, 6-i, 30)\<close> for each
  \<open>i\<close>, collected in order.
\<close>

fun stage_draws :: "nat list \<Rightarrow> world \<Rightarrow> sample list \<times> world" where
  "stage_draws [] w = ([], w)"
| "stage_draws (i # is) w =
     (let (stage_diff, w1) = np_random_draw (Beta (i + 1) (6 - i) 30) w;
          (rest, w2) = stage_draws is w1
      in (stage_diff # rest, w2))"

definition episodes_per_stage :: "int list" where
  "episodes_per_stage = [180, 200, 260, 280, 220]"

definition cumulative :: "int list" where
  "cumulative = np_cumsum ([0] @ episodes_per_stage)"

definition episodes_required :: "int list" where
  "episodes_required = [2000, 1420, 1160]"

text \<open>
  The annotations of the training timeline, lines 898 to 914: one label per stage,
  \<^verbatim>\<open>f'S{i+1}\n{episodes_per_stage[i]}'\<close>, then
  \<^verbatim>\<open>f'Total: {cumulative[-1]} episodes (vs 2000 uniform)'\<close>.
\<close>

definition stage_label :: "nat \<Rightarrow> annotation" where
  "stage_label i = [Txt ''S'', Num (int i + 1), Txt [CHR 0x0A], Num (episodes_per_stage ! i)]"

definition total_label :: annotation where
  "total_label = [Txt ''Total: '', Num (last cumulative), Txt '' episodes (vs 2000 uniform)'']"

text \<open>The bar labels of the sample complexity panel, lines 995 and 996: \<^verbatim>\<open>str(val)\<close>.\<close>

definition bar_labels :: "annotation list" where
  "bar_labels = map (\<lambda>val. [Num val]) episodes_required"

text \<open>\<^verbatim>\<open>plot_lpc_curriculum\<close>, lines 752 to 1007.\<close>

definition plot_lpc_curriculum :: "env \<Rightarrow> world \<Rightarrow> exn option \<times> world" where
  "plot_lpc_curriculum e w =
     (let w1 = plt_figure w;
          w2 = np_random_seed 42 w1;
          (feature_values, w3) = np_random_draw (Rand [6]) w2;
          (z1, w4) = np_random_draw (Randn 150) w3;
          (z2, w5) = np_random_draw (Randn 150) w4;
          (all_difficulties, w6) = stage_draws [0 ..< 5] w5;
          fig = \<lparr>figsize = (18, 11),
                 title = ''Figure 6. Learned Perceptual Curriculum (LPC) with Automatic Difficulty Decomposition'',
                 arrays = [feature_values, z1, z2] @ all_difficulties,
                 annotations = map stage_label [0 ..< 5] @ [total_label] @ bar_labels\<rparr>
      in layout_save_close e fig ''figure6_lpc_curriculum'' w6)"

subsection \<open>The drivers\<close>

text \<open>
  The loop that both drivers run over their list of figures (lines 487 to 494 and 1024
  to 1031). In the \<^verbatim>\<open>try\<close> block the figure is announced and its function called. An
  exception that is an instance of \<^verbatim>\<open>Exception\<close> is handled: the handler prints the error
  and the traceback, and the loop goes on with the next figure; if the handler's own
  \<^verbatim>\<open>print\<close> raises, that exception leaves the loop. Any other exception leaves the loop
  at once.
\<close>

fun for_figures ::
  "env \<Rightarrow> nat \<Rightarrow> nat \<Rightarrow> (string \<times> (env \<Rightarrow> world \<Rightarrow> exn option \<times> world)) list \<Rightarrow> world
    \<Rightarrow> exn option \<times> world" where
  "for_figures e idx n [] w = (None, w)"
| "for_figures e idx n ((name, func) # rest) w =
     (case andthen (print e (Generating idx n name)) (func e) w of
        (None, w1) \<Rightarrow> for_figures e (Suc idx) n rest w1
      | (Some x, w1) \<Rightarrow>
          if is_Exception x then
            (case print e (Error x) w1 of
               (Some y, w2) \<Rightarrow> (Some y, w2)
             | (None, w2) \<Rightarrow> for_figures e (Suc idx) n rest (traceback_print_exc x w2))
          else (Some x, w1))"

definition figures :: "(string \<times> (env \<Rightarrow> world \<Rightarrow> exn option \<times> world)) list" where
  "figures =
     [(''Figure 3: System Architecture'', plot_system_architecture),
      (''Figure 4: HAA-UQ Mechanism'', plot_haa_uq_mechanism)]"

definition additional_figures :: "(string \<times> (env \<Rightarrow> world \<Rightarrow> exn option \<times> world)) list" where
  "additional_figures =
     [(''Figure 5: PI-CMDR Pipeline'', plot_pi_cmdr_pipeline),
      (''Figure 6: LPC Curriculum'', plot_lpc_curriculum)]"

definition main_header :: "line list" where
  "main_header =
     [Rule, Text ''ST-RL Nav - Section 3 Methodology Figures'', Rule,
      Text ''Output directory: paper_figures_section3/'', Rule, Blank]"

definition main_footer :: "line list" where
  "main_footer =
     [Blank, Rule, Checked ''Section 3 figures generated!'', Rule,
      Blank, Text ''All figures saved to: paper_figures_section3/'',
      Blank, Text ''Next: Run this script to generate remaining figures:'',
      Bullet ''Figure 5: PI-CMDR Pipeline'',
      Bullet ''Figure 6: LPC Curriculum Construction'']"

text \<open>\<^verbatim>\<open>main()\<close>, lines 472 to 503.\<close>

definition main :: "env \<Rightarrow> world \<Rightarrow> exn option \<times> world" where
  "main e =
     andthen (prints e main_header)
       (andthen (for_figures e 1 (length figures) figures) (prints e main_footer))"

definition additional_header :: "line list" where
  "additional_header =
     [Blank, Rule, Text ''Generating additional Section 3 figures...'', Rule, Blank]"

definition additional_footer :: "line list" where
  "additional_footer = [Blank, Rule, Checked ''ALL Section 3 figures complete!'', Rule]"

text \<open>The \<^verbatim>\<open>__main__\<close> block, lines 1010 to 1035.\<close>

definition main_block :: "env \<Rightarrow> world \<Rightarrow> exn option \<times> world" where
  "main_block e =
     andthen (main e)
       (andthen (prints e additional_header)
         (andthen (for_figures e 3 4 additional_figures) (prints e additional_footer)))"

text \<open>
  Running the script: the imports and the style (lines 10 to 24), the creation of the
  output directory (line 27), then the \<^verbatim>\<open>__main__\<close> block. An exception that reaches the
  top ends the process, and the interpreter writes its traceback.
\<close>

definition script :: "env \<Rightarrow> world \<Rightarrow> exn option \<times> world" where
  "script e w =
     (case import_raises e (environ w) of
        Some x \<Rightarrow> (Some x, traceback_print_exc x w)
      | None \<Rightarrow>
          (case andthen (os_makedirs e OUTPUT_DIR) (main_block e) w of
             (Some x, w1) \<Rightarrow> (Some x, traceback_print_exc x w1)
           | (None, w1) \<Rightarrow> (None, w1)))"

text \<open>The four figure functions, each with the identifier it passes to \<^verbatim>\<open>save_figure\<close>.\<close>

definition figure_functions :: "(string \<times> (env \<Rightarrow> world \<Rightarrow> exn option \<times> world)) list" where
  "figure_functions =
     [(''figure3_system_architecture'', plot_system_architecture),
      (''figure4_haa_uq_mechanism'', plot_haa_uq_mechanism),
      (''figure5_pi_cmdr_pipeline'', plot_pi_cmdr_pipeline),
      (''figure6_lpc_curriculum'', plot_lpc_curriculum)]"

section \<open>The effects in closed form\<close>

text \<open>
  The definitions of this section are not in the source. They describe what the calls
  above do as functions of the file system and of the environment, and name the
  properties of statements that the proofs compose; the lemmas below prove that the
  figure functions and the drivers behave so.
\<close>

text \<open>The samples drawn by a sequence of requests, starting from a generator state.\<close>

fun draws_from :: "rng \<Rightarrow> draw list \<Rightarrow> sample list" where
  "draws_from r [] = []"
| "draws_from (Rng s h) (d # ds) = Sample (Rng s h) d # draws_from (Rng s (h @ [d])) ds"

definition seeded :: "draw list \<Rightarrow> sample list" where
  "seeded ds = draws_from (Rng (Seed 42) []) ds"

text \<open>The figure objects that the four functions hand to \<open>layout_save_close\<close>.\<close>

definition system_architecture_figure :: figure where
  "system_architecture_figure =
     \<lparr>figsize = (18, 12), title = ''Figure 3. ST-RL Nav System Architecture'',
      arrays = [], annotations = []\<rparr>"

definition haa_uq_draws :: "draw list" where
  "haa_uq_draws = [Rand [8, 8], Rand [4, 4], Rand [8, 8], Uniform (1 / 100) (3 / 100) [8, 8]]"

definition haa_uq_figure :: figure where
  "haa_uq_figure =
     \<lparr>figsize = (18, 10),
      title = ''Figure 4. Hierarchical Aliasing-Aware Attention with Uncertainty Quantification (HAA-UQ)'',
      arrays = seeded haa_uq_draws,
      annotations =
        [[Txt ''Entropy: '', Flt ''entropy_std'' [seeded haa_uq_draws ! 3], Txt '' (HIGH)''],
         [Txt ''Entropy: '', Flt ''entropy_haa'' [],
          Txt ('' (LOW, '' @ down_arrow),
          Flt ''(entropy_std-entropy_haa)/entropy_std*100'' [seeded haa_uq_draws ! 3],
          Txt ''%)'']]\<rparr>"

definition pi_cmdr_draws :: "draw list" where
  "pi_cmdr_draws = [Rand [10, 10]]"

definition pi_cmdr_figure :: figure where
  "pi_cmdr_figure =
     \<lparr>figsize = (18, 10),
      title = ''Figure 5. Physics-Informed Cross-Modal Depth Refinement (PI-CMDR) Pipeline'',
      arrays = seeded pi_cmdr_draws, annotations = []\<rparr>"

definition lpc_draws :: "draw list" where
  "lpc_draws =
     [Rand [6], Randn 150, Randn 150,
      Beta 1 6 30, Beta 2 5 30, Beta 3 4 30, Beta 4 3 30, Beta 5 2 30]"

definition lpc_figure :: figure where
  "lpc_figure =
     \<lparr>figsize = (18, 11),
      title = ''Figure 6. Learned Perceptual Curriculum (LPC) with Automatic Difficulty Decomposition'',
      arrays = seeded lpc_draws,
      annotations = map stage_label [0, 1, 2, 3, 4] @ [total_label] @ bar_labels\<rparr>"

text \<open>
  The state in which a figure function reaches its last three statements: one more
  figure is open, and the generator is where the function's draws have left it.
\<close>

definition drawn :: "(rng \<Rightarrow> rng) \<Rightarrow> world \<Rightarrow> world" where
  "drawn r w =
     w\<lparr>open_figs := open_figs w @ [Suc (fold max (open_figs w) 0)],
       np_random := r (np_random w)\<rparr>"

definition after_seed :: "draw list \<Rightarrow> rng \<Rightarrow> rng" where
  "after_seed ds r = Rng (Seed 42) ds"

text \<open>
  What the last three statements raise before the message is printed, which files they
  write, and what they raise in the end, on a file system and under an environment.
\<close>

definition fig_raises :: "env \<Rightarrow> (string \<rightharpoonup> string) \<Rightarrow> string \<Rightarrow> (path \<rightharpoonup> node) \<Rightarrow> exn option" where
  "fig_raises e v name F =
     (case lib_raises e v name of
        Some x \<Rightarrow> Some x
      | None \<Rightarrow>
          (case open_wb e (png_path name) F of
             Some x \<Rightarrow> Some x
           | None \<Rightarrow> open_wb e (pdf_path name) F))"

definition fig_writes ::
  "env \<Rightarrow> (string \<rightharpoonup> string) \<Rightarrow> figure \<Rightarrow> string \<Rightarrow> (path \<rightharpoonup> node) \<Rightarrow> (path \<times> fmt \<times> figure) list" where
  "fig_writes e v fig name F =
     (if lib_raises e v name \<noteq> None \<or> open_wb e (png_path name) F \<noteq> None then []
      else if open_wb e (pdf_path name) F \<noteq> None then [(png_path name, PNG, fig)]
      else [(png_path name, PNG, fig), (pdf_path name, PDF, fig)])"

definition fig_result :: "env \<Rightarrow> (string \<rightharpoonup> string) \<Rightarrow> string \<Rightarrow> (path \<rightharpoonup> node) \<Rightarrow> exn option" where
  "fig_result e v name F =
     (case fig_raises e v name F of
        Some x \<Rightarrow> Some x
      | None \<Rightarrow> if stdout_encodes e v then None else Some UnicodeEncodeError)"

text \<open>The file system after a list of writes made at the creation date \<open>t\<close>.\<close>

definition store ::
  "env \<Rightarrow> nat \<Rightarrow> (path \<times> fmt \<times> figure) list \<Rightarrow> (path \<rightharpoonup> node) \<Rightarrow> (path \<rightharpoonup> node)" where
  "store e t ws F = fold (\<lambda>(p, f, fig) G. G(p \<mapsto> File (encode e f fig t))) ws F"

text \<open>One round of the drivers' loop.\<close>

definition one_round ::
  "env \<Rightarrow> nat \<Rightarrow> nat \<Rightarrow> string \<Rightarrow> (env \<Rightarrow> world \<Rightarrow> exn option \<times> world) \<Rightarrow> world
    \<Rightarrow> exn option \<times> world" where
  "one_round e idx n name func w =
     (case andthen (print e (Generating idx n name)) (func e) w of
        (None, w1) \<Rightarrow> (None, w1)
      | (Some x, w1) \<Rightarrow>
          if is_Exception x then
            (case print e (Error x) w1 of
               (Some y, w2) \<Rightarrow> (Some y, w2)
             | (None, w2) \<Rightarrow> (None, traceback_print_exc x w2))
          else (Some x, w1))"

text \<open>
  A statement that writes files at paths of the list \<open>L\<close> only, in the order of \<open>L\<close>.
\<close>

definition emits :: "path list \<Rightarrow> (world \<Rightarrow> exn option \<times> world) \<Rightarrow> bool" where
  "emits L c \<longleftrightarrow> (\<forall>w. \<exists>ws. saved (snd (c w)) = saved w @ ws \<and> subseq (map fst ws) L)"

text \<open>
  The runtime and the library behave the same under two environments; a process moved
  to another command line and environment; and a statement that does the same in the
  moved process as in the original one, leaving the environment as it is.
\<close>

definition same_library :: "env \<Rightarrow> (string \<rightharpoonup> string) \<Rightarrow> (string \<rightharpoonup> string) \<Rightarrow> bool" where
  "same_library e v v' \<longleftrightarrow>
     stdout_encodes e v' = stdout_encodes e v \<and> stamp e v' = stamp e v
     \<and> import_raises e v' = import_raises e v \<and> lib_raises e v' = lib_raises e v"

definition moved :: "string list \<Rightarrow> (string \<rightharpoonup> string) \<Rightarrow> world \<Rightarrow> world" where
  "moved a v w = w\<lparr>argv := a, environ := v\<rparr>"

definition oblivious ::
  "env \<Rightarrow> string list \<Rightarrow> (string \<rightharpoonup> string) \<Rightarrow> (world \<Rightarrow> exn option \<times> world) \<Rightarrow> bool" where
  "oblivious e a v c \<longleftrightarrow>
     (\<forall>w. same_library e (environ w) v \<longrightarrow>
        environ (snd (c w)) = environ w \<and> c (moved a v w) = (fst (c w), moved a v (snd (c w))))"

text \<open>
  Nothing stands in the way of saving the figure \<open>name\<close>: the output directory is there,
  neither output path is a directory, and neither the library nor the operating system
  raises.
\<close>

definition clear :: "env \<Rightarrow> (string \<rightharpoonup> string) \<Rightarrow> string \<Rightarrow> (path \<rightharpoonup> node) \<Rightarrow> bool" where
  "clear e v name F \<longleftrightarrow>
     F OUTPUT_DIR = Some Dir
     \<and> F (png_path name) \<noteq> Some Dir \<and> F (pdf_path name) \<noteq> Some Dir
     \<and> lib_raises e v name = None
     \<and> os_raises e (png_path name) (F (png_path name) \<noteq> None) = None
     \<and> os_raises e (pdf_path name) (F (pdf_path name) \<noteq> None) = None"

text \<open>What the creation of the output directory raises, and the file system after it.\<close>

definition makedirs_raises :: "env \<Rightarrow> (path \<rightharpoonup> node) \<Rightarrow> exn option" where
  "makedirs_raises e F =
     (case F OUTPUT_DIR of
        Some Dir \<Rightarrow> None
      | Some (File c) \<Rightarrow> Some (FileExistsError OUTPUT_DIR)
      | None \<Rightarrow> os_raises e OUTPUT_DIR False)"

definition made :: "env \<Rightarrow> (path \<rightharpoonup> node) \<Rightarrow> (path \<rightharpoonup> node)" where
  "made e F =
     (if F OUTPUT_DIR = None \<and> os_raises e OUTPUT_DIR False = None then F(OUTPUT_DIR \<mapsto> Dir)
      else F)"

text \<open>The eight output paths, in the order in which a run without failure writes them.\<close>

definition output_paths :: "path list" where
  "output_paths =
     [png_path ''figure3_system_architecture'', pdf_path ''figure3_system_architecture'',
      png_path ''figure4_haa_uq_mechanism'', pdf_path ''figure4_haa_uq_mechanism'',
      png_path ''figure5_pi_cmdr_pipeline'', pdf_path ''figure5_pi_cmdr_pipeline'',
      png_path ''figure6_lpc_curriculum'', pdf_path ''figure6_lpc_curriculum'']"

text \<open>The writes and the lines of \<open>main\<close> and of the whole script when nothing fails.\<close>

definition main_writes :: "(path \<times> fmt \<times> figure) list" where
  "main_writes =
     [(png_path ''figure3_system_architecture'', PNG, system_architecture_figure),
      (pdf_path ''figure3_system_architecture'', PDF, system_architecture_figure),
      (png_path ''figure4_haa_uq_mechanism'', PNG, haa_uq_figure),
      (pdf_path ''figure4_haa_uq_mechanism'', PDF, haa_uq_figure)]"

definition additional_writes :: "(path \<times> fmt \<times> figure) list" where
  "additional_writes =
     [(png_path ''figure5_pi_cmdr_pipeline'', PNG, pi_cmdr_figure),
      (pdf_path ''figure5_pi_cmdr_pipeline'', PDF, pi_cmdr_figure),
      (png_path ''figure6_lpc_curriculum'', PNG, lpc_figure),
      (pdf_path ''figure6_lpc_curriculum'', PDF, lpc_figure)]"

definition main_console :: "line list" where
  "main_console =
     main_header
     @ [Generating 1 2 ''Figure 3: System Architecture'', Saved ''figure3_system_architecture'',
        Generating 2 2 ''Figure 4: HAA-UQ Mechanism'', Saved ''figure4_haa_uq_mechanism'']
     @ main_footer"

definition additional_console :: "line list" where
  "additional_console =
     additional_header
     @ [Generating 3 4 ''Figure 5: PI-CMDR Pipeline'', Saved ''figure5_pi_cmdr_pipeline'',
        Generating 4 4 ''Figure 6: LPC Curriculum'', Saved ''figure6_lpc_curriculum'']
     @ additional_footer"

section \<open>Notions used in the statements\<close>

text \<open>
  One run of the script as a process of its own: on the file system \<open>F\<close> it finds, with
  the entropy \<open>k\<close>, the command line \<open>a\<close>, the environment \<open>v\<close> and at the time \<open>c\<close>.
\<close>

definition run ::
  "env \<Rightarrow> (path \<rightharpoonup> node) \<Rightarrow> nat \<Rightarrow> string list \<Rightarrow> (string \<rightharpoonup> string) \<Rightarrow> nat
    \<Rightarrow> exn option \<times> world" where
  "run e F k a v c = script e (boot F k a v c)"

text \<open>
  Nothing stands in the way of a run: the imports succeed, the standard output encodes
  the marks, the output directory is there or can be created, no output path is a
  directory, and neither the library nor the operating system raises.
\<close>

definition healthy :: "env \<Rightarrow> (string \<rightharpoonup> string) \<Rightarrow> (path \<rightharpoonup> node) \<Rightarrow> bool" where
  "healthy e v F \<longleftrightarrow>
     import_raises e v = None \<and> stdout_encodes e v
     \<and> (F OUTPUT_DIR = Some Dir \<or> F OUTPUT_DIR = None \<and> os_raises e OUTPUT_DIR False = None)
     \<and> (\<forall>p \<in> set output_paths. F p \<noteq> Some Dir \<and> os_raises e p (F p \<noteq> None) = None)
     \<and> (\<forall>name \<in> set (map fst figure_functions). lib_raises e v name = None)"

text \<open>The figures that the console announces, and the errors that it reports, in order.\<close>

definition announced :: "line list \<Rightarrow> string list" where
  "announced ls = [name. Generating idx n name \<leftarrow> ls]"

definition reported :: "line list \<Rightarrow> exn list" where
  "reported ls = [x. Error x \<leftarrow> ls]"

text \<open>The interpolated integers and the interpolated floating-point variables of a figure.\<close>

definition displayed_ints :: "figure \<Rightarrow> int list" where
  "displayed_ints fig = concat (map (\<lambda>a. [n. Num n \<leftarrow> a]) (annotations fig))"

definition displayed_floats :: "figure \<Rightarrow> string list" where
  "displayed_floats fig = concat (map (\<lambda>a. [v. Flt v xs \<leftarrow> a]) (annotations fig))"

text \<open>A sample drawn from the generator after \<^verbatim>\<open>np.random.seed(42)\<close>.\<close>

fun seeded_42 :: "sample \<Rightarrow> bool" where
  "seeded_42 (Sample (Rng (Seed n) h) d) = (n = 42)"
| "seeded_42 (Sample (Rng (Entropy k) h) d) = False"

text \<open>
  Concrete surroundings for the examples. \<open>plain_env\<close> is a library that never raises,
  whose backends emit the signature of the format followed by the creation date, whose
  creation date is the clock, and whose standard output is ASCII exactly when
  \<^verbatim>\<open>PYTHONIOENCODING\<close> says so. \<open>interrupted_env\<close> is the same with the user interrupting
  every drawing, \<open>stuck_env\<close> the same with every layout failing. The disks: an empty one,
  one that holds the output directory only, and one on which the PDF path of Figure 3
  is taken by a directory.
\<close>

definition plain_env :: env where
  "plain_env =
     \<lparr>encode = (\<lambda>f fig t. case f of PNG \<Rightarrow> [137, 80, 78, 71, 13, 10, 26, 10, t]
                               | PDF \<Rightarrow> [37, 80, 68, 70, t]),
      stamp = (\<lambda>v c. c),
      stdout_encodes = (\<lambda>v. v ''PYTHONIOENCODING'' \<noteq> Some ''ascii''),
      import_raises = (\<lambda>v. None),
      lib_raises = (\<lambda>v name. None),
      os_raises = (\<lambda>p b. None)\<rparr>"

definition interrupted_env :: env where
  "interrupted_env = plain_env\<lparr>lib_raises := (\<lambda>v name. Some KeyboardInterrupt)\<rparr>"

definition stuck_env :: env where
  "stuck_env = plain_env\<lparr>lib_raises := (\<lambda>v name. Some (LibraryError ''layout''))\<rparr>"

definition ascii_environ :: "string \<rightharpoonup> string" where
  "ascii_environ = [''PYTHONIOENCODING'' \<mapsto> ''ascii'']"

definition ready_fs :: "path \<rightharpoonup> node" where
  "ready_fs = [OUTPUT_DIR \<mapsto> Dir]"

definition blocked_fs :: "path \<rightharpoonup> node" where
  "blocked_fs = [OUTPUT_DIR \<mapsto> Dir, pdf_path ''figure3_system_architecture'' \<mapsto> Dir]"

definition ready :: world where
  "ready = boot ready_fs 0 [] Map.empty 0"

definition blocked :: world where
  "blocked = boot blocked_fs 0 [] Map.empty 0"

section \<open>Paths and formats\<close>

lemma ends_with_append [simp]: "ends_with s (x @ s)"
  by (simp add: ends_with_def)

lemma format_png [simp]: "format_of (png_path name) = Some PNG"
  by (simp add: format_of_def png_path_def os_path_join_def)

lemma ends_with_pdf_png: "\<not> ends_with ''.png'' (name @ ''.pdf'')"
  by (simp add: ends_with_def)

lemma format_pdf [simp]: "format_of (pdf_path name) = Some PDF"
  by (simp add: format_of_def pdf_path_def os_path_join_def ends_with_pdf_png)

lemma parent_png [simp]: "butlast (png_path name) = OUTPUT_DIR"
  by (simp add: png_path_def os_path_join_def)

lemma parent_pdf [simp]: "butlast (pdf_path name) = OUTPUT_DIR"
  by (simp add: pdf_path_def os_path_join_def)

lemma png_not_out [simp]: "png_path name \<noteq> OUTPUT_DIR" "OUTPUT_DIR \<noteq> png_path name"
  by (simp_all add: png_path_def os_path_join_def)

lemma pdf_not_out [simp]: "pdf_path name \<noteq> OUTPUT_DIR" "OUTPUT_DIR \<noteq> pdf_path name"
  by (simp_all add: pdf_path_def os_path_join_def)

lemma png_not_pdf [simp]: "png_path a \<noteq> pdf_path b" "pdf_path b \<noteq> png_path a"
proof -
  have "a @ ''.png'' \<noteq> b @ ''.pdf''"
  proof
    assume "a @ ''.png'' = b @ ''.pdf''"
    then have "last (a @ ''.png'') = last (b @ ''.pdf'')" by simp
    then show False by simp
  qed
  then show "png_path a \<noteq> pdf_path b" "pdf_path b \<noteq> png_path a"
    by (auto simp add: png_path_def pdf_path_def os_path_join_def)
qed

lemma png_inj [simp]: "png_path a = png_path b \<longleftrightarrow> a = b"
  by (simp add: png_path_def os_path_join_def)

lemma pdf_inj [simp]: "pdf_path a = pdf_path b \<longleftrightarrow> a = b"
  by (simp add: pdf_path_def os_path_join_def)

lemma open_wb_png_upd [simp]:
  "open_wb e (pdf_path name) (F(png_path name' \<mapsto> File c)) = open_wb e (pdf_path name) F"
  by (simp add: open_wb_def split: option.splits node.splits)

lemma open_wb_None_not_dir: "open_wb e p F = None \<Longrightarrow> F p \<noteq> Some Dir"
  by (auto simp add: open_wb_def split: option.splits node.splits)

lemma open_wb_clear:
  "F (butlast p) = Some Dir \<Longrightarrow> F p \<noteq> Some Dir \<Longrightarrow> open_wb e p F = os_raises e p (F p \<noteq> None)"
  by (auto simp add: open_wb_def split: option.splits node.splits)

section \<open>One figure function\<close>

lemma has_mark_Saved: "has_mark (Saved name)"
  by simp

lemma layout_save_close_eq:
  "layout_save_close e fig name w =
     (fig_result e (environ w) name (fs w),
      w\<lparr>fs := store e (stamp e (environ w) (clock w)) (fig_writes e (environ w) fig name (fs w)) (fs w),
        saved := saved w @ fig_writes e (environ w) fig name (fs w),
        console := console w
          @ (case fig_result e (environ w) name (fs w) of None \<Rightarrow> [Saved name] | Some x \<Rightarrow> []),
        open_figs := (case fig_result e (environ w) name (fs w) of
                        None \<Rightarrow> butlast (open_figs w) | Some x \<Rightarrow> open_figs w)\<rparr>)"
  by (auto simp add: layout_save_close_def save_figure_def savefig_def fig_raises_def fig_result_def
      fig_writes_def store_def print_def plt_close_def split: option.splits)

lemma fs_drawn [simp]: "fs (drawn r w) = fs w"
  and saved_drawn [simp]: "saved (drawn r w) = saved w"
  and console_drawn [simp]: "console (drawn r w) = console w"
  and environ_drawn [simp]: "environ (drawn r w) = environ w"
  and argv_drawn [simp]: "argv (drawn r w) = argv w"
  and clock_drawn [simp]: "clock (drawn r w) = clock w"
  by (simp_all add: drawn_def)

lemma plot_system_architecture_eq:
  "plot_system_architecture e w =
     layout_save_close e system_architecture_figure ''figure3_system_architecture'' (drawn (\<lambda>r. r) w)"
  by (simp add: plot_system_architecture_def system_architecture_figure_def plt_figure_def drawn_def)

lemma plot_haa_uq_mechanism_eq:
  "plot_haa_uq_mechanism e w =
     layout_save_close e haa_uq_figure ''figure4_haa_uq_mechanism'' (drawn (after_seed haa_uq_draws) w)"
  by (simp add: plot_haa_uq_mechanism_def haa_uq_figure_def haa_uq_draws_def seeded_def
      plt_figure_def np_random_seed_def np_random_draw_def drawn_def after_seed_def)

lemma plot_pi_cmdr_pipeline_eq:
  "plot_pi_cmdr_pipeline e w =
     layout_save_close e pi_cmdr_figure ''figure5_pi_cmdr_pipeline'' (drawn (after_seed pi_cmdr_draws) w)"
  by (simp add: plot_pi_cmdr_pipeline_def pi_cmdr_figure_def pi_cmdr_draws_def seeded_def
      plt_figure_def np_random_seed_def np_random_draw_def drawn_def after_seed_def)

lemma range5: "[0 ..< 5] = [0, 1, 2, 3, 4]"
  by code_simp

lemma plot_lpc_curriculum_eq:
  "plot_lpc_curriculum e w =
     layout_save_close e lpc_figure ''figure6_lpc_curriculum'' (drawn (after_seed lpc_draws) w)"
  by (simp add: plot_lpc_curriculum_def lpc_figure_def lpc_draws_def seeded_def range5
      numeral_2_eq_2 [symmetric] plt_figure_def np_random_seed_def np_random_draw_def drawn_def after_seed_def)

lemma seeded_all: "list_all seeded_42 (draws_from (Rng (Seed 42) h) ds)"
  by (induction ds arbitrary: h) simp_all

lemma figure_functions_names:
  assumes "(name, func) \<in> set figure_functions"
  shows "name = ''figure3_system_architecture'' \<and> func = plot_system_architecture
     \<or> name = ''figure4_haa_uq_mechanism'' \<and> func = plot_haa_uq_mechanism
     \<or> name = ''figure5_pi_cmdr_pipeline'' \<and> func = plot_pi_cmdr_pipeline
     \<or> name = ''figure6_lpc_curriculum'' \<and> func = plot_lpc_curriculum"
  using assms by (simp add: figure_functions_def)

lemma figure_functions_cases:
  assumes "(name, func) \<in> set figure_functions"
  obtains fig r where "\<And>e w. func e w = layout_save_close e fig name (drawn r w)"
    and "list_all seeded_42 (arrays fig)"
    and "r = (\<lambda>x. x) \<or> (\<exists>ds. r = after_seed ds)"
  using figure_functions_names [OF assms]
proof (elim disjE conjE)
    assume n: "name = ''figure3_system_architecture''" and f: "func = plot_system_architecture"
    show ?thesis
    proof (rule that)
      show "\<And>e w. func e w = layout_save_close e system_architecture_figure name (drawn (\<lambda>r. r) w)"
        unfolding n f by (rule plot_system_architecture_eq)
      show "list_all seeded_42 (arrays system_architecture_figure)"
        by (simp add: system_architecture_figure_def)
      show "(\<lambda>r. r) = (\<lambda>x. x) \<or> (\<exists>ds. (\<lambda>r. r) = after_seed ds)"
        by blast
    qed
next
    assume n: "name = ''figure4_haa_uq_mechanism''" and f: "func = plot_haa_uq_mechanism"
    show ?thesis
    proof (rule that)
      show "\<And>e w. func e w = layout_save_close e haa_uq_figure name (drawn (after_seed haa_uq_draws) w)"
        unfolding n f by (rule plot_haa_uq_mechanism_eq)
      show "list_all seeded_42 (arrays haa_uq_figure)"
        by (simp add: haa_uq_figure_def seeded_def seeded_all)
      show "(after_seed haa_uq_draws) = (\<lambda>x. x) \<or> (\<exists>ds. (after_seed haa_uq_draws) = after_seed ds)"
        by blast
    qed
next
    assume n: "name = ''figure5_pi_cmdr_pipeline''" and f: "func = plot_pi_cmdr_pipeline"
    show ?thesis
    proof (rule that)
      show "\<And>e w. func e w = layout_save_close e pi_cmdr_figure name (drawn (after_seed pi_cmdr_draws) w)"
        unfolding n f by (rule plot_pi_cmdr_pipeline_eq)
      show "list_all seeded_42 (arrays pi_cmdr_figure)"
        by (simp add: pi_cmdr_figure_def seeded_def seeded_all)
      show "(after_seed pi_cmdr_draws) = (\<lambda>x. x) \<or> (\<exists>ds. (after_seed pi_cmdr_draws) = after_seed ds)"
        by blast
    qed
next
    assume n: "name = ''figure6_lpc_curriculum''" and f: "func = plot_lpc_curriculum"
    show ?thesis
    proof (rule that)
      show "\<And>e w. func e w = layout_save_close e lpc_figure name (drawn (after_seed lpc_draws) w)"
        unfolding n f by (rule plot_lpc_curriculum_eq)
      show "list_all seeded_42 (arrays lpc_figure)"
        by (simp add: lpc_figure_def seeded_def seeded_all)
      show "(after_seed lpc_draws) = (\<lambda>x. x) \<or> (\<exists>ds. (after_seed lpc_draws) = after_seed ds)"
        by blast
    qed
qed

lemma fig_clear:
  assumes "clear e v name F"
  shows "fig_raises e v name F = None"
    and "fig_writes e v fig name F = [(png_path name, PNG, fig), (pdf_path name, PDF, fig)]"
  using assms by (simp_all add: clear_def fig_raises_def fig_writes_def open_wb_clear)

lemma fig_raises_None_writes:
  "fig_raises e v name F = None \<Longrightarrow>
   fig_writes e v fig name F = [(png_path name, PNG, fig), (pdf_path name, PDF, fig)]"
  by (simp add: fig_raises_def fig_writes_def split: option.splits)

lemma fig_result_None: "fig_result e v name F = None \<Longrightarrow> fig_raises e v name F = None"
  by (simp add: fig_result_def split: option.splits)

lemma ready_facts:
  "fs ready OUTPUT_DIR = Some Dir"
  "fs ready (png_path name) = None"
  "fs ready (pdf_path name) = None"
  "console ready = []" "saved ready = []" "open_figs ready = []"
  "environ ready = Map.empty" "clock ready = 0" "np_random ready = Rng (Entropy 0) []"
  by (simp_all add: ready_def ready_fs_def boot_def)

lemma blocked_facts:
  "fs blocked OUTPUT_DIR = Some Dir"
  "fs blocked (png_path name) = None"
  "fs blocked (pdf_path ''figure3_system_architecture'') = Some Dir"
  "console blocked = []" "saved blocked = []" "open_figs blocked = []"
  "environ blocked = Map.empty" "clock blocked = 0"
  by (simp_all add: blocked_def blocked_fs_def boot_def)

lemma plain_env_facts:
  "lib_raises plain_env v name = None"
  "os_raises plain_env p b = None"
  "import_raises plain_env v = None"
  "encode plain_env f fig t \<noteq> []"
  "stdout_encodes plain_env Map.empty"
  "stamp plain_env v c = c"
  by (simp_all add: plain_env_def split: fmt.splits)

lemma clear_ready: "clear plain_env v name (fs ready)"
  by (simp add: clear_def ready_facts plain_env_facts)

lemma fig_result_ready [simp]: "fig_result plain_env Map.empty name (fs ready) = None"
  by (simp add: fig_result_def fig_clear(1) [OF clear_ready] plain_env_facts)

lemma fig_raises_blocked:
  "fig_raises plain_env v ''figure3_system_architecture'' (fs blocked)
     = Some (IsADirectoryError (pdf_path ''figure3_system_architecture''))"
  by (simp add: fig_raises_def open_wb_def blocked_facts plain_env_facts)

lemma fig_result_blocked:
  "fig_result plain_env v ''figure3_system_architecture'' (fs blocked)
     = Some (IsADirectoryError (pdf_path ''figure3_system_architecture''))"
  by (simp add: fig_result_def fig_raises_blocked)

lemma cumulative_eq: "cumulative = [0, 180, 380, 640, 920, 1140]"
  by (simp add: cumulative_def np_cumsum_def episodes_per_stage_def)

lemma lpc_annotations:
  "annotations lpc_figure =
     [[Txt ''S'', Num 1, Txt [CHR 0x0A], Num 180],
      [Txt ''S'', Num 2, Txt [CHR 0x0A], Num 200],
      [Txt ''S'', Num 3, Txt [CHR 0x0A], Num 260],
      [Txt ''S'', Num 4, Txt [CHR 0x0A], Num 280],
      [Txt ''S'', Num 5, Txt [CHR 0x0A], Num 220],
      [Txt ''Total: '', Num 1140, Txt '' episodes (vs 2000 uniform)''],
      [Num 2000], [Num 1420], [Num 1160]]"
  by (simp add: lpc_figure_def stage_label_def total_label_def bar_labels_def cumulative_eq
      episodes_per_stage_def episodes_required_def)

lemma lpc_displayed:
  "displayed_ints lpc_figure = [1, 180, 2, 200, 3, 260, 4, 280, 5, 220, 1140, 2000, 1420, 1160]"
  "displayed_floats lpc_figure = []"
  by (simp_all add: displayed_ints_def displayed_floats_def lpc_annotations)

lemma haa_uq_displayed:
  "displayed_ints haa_uq_figure = []"
  "displayed_floats haa_uq_figure
     = [''entropy_std'', ''entropy_haa'', ''(entropy_std-entropy_haa)/entropy_std*100'']"
  by (simp_all add: displayed_ints_def displayed_floats_def haa_uq_figure_def)

lemma other_displayed:
  "displayed_ints system_architecture_figure = []"
  "displayed_floats system_architecture_figure = []"
  "displayed_ints pi_cmdr_figure = []"
  "displayed_floats pi_cmdr_figure = []"
  by (simp_all add: displayed_ints_def displayed_floats_def system_architecture_figure_def
      pi_cmdr_figure_def)

lemma saved_figure:
  assumes f: "\<And>e w. func e w = layout_save_close e FIG name (drawn r w)"
    and s: "saved (snd (func e w)) = saved w @ ws"
    and m: "(p, f, fig) \<in> set ws"
  shows "fig = FIG"
proof -
  from s have "ws = fig_writes e (environ w) FIG name (fs w)"
    by (simp add: f layout_save_close_eq)
  with m show ?thesis
    by (auto simp add: fig_writes_def split: if_splits)
qed

lemma ready_saved_lpc:
  "saved (snd (plot_lpc_curriculum plain_env ready))
     = [(png_path ''figure6_lpc_curriculum'', PNG, lpc_figure),
        (pdf_path ''figure6_lpc_curriculum'', PDF, lpc_figure)]"
  by (simp add: plot_lpc_curriculum_eq layout_save_close_eq fig_clear(2) [OF clear_ready]
      ready_facts)

lemma stuck_result: "fig_result stuck_env v name F = Some (LibraryError ''layout'')"
  by (simp add: fig_result_def fig_raises_def stuck_env_def)

lemma print_plain: "\<not> has_mark l \<Longrightarrow> print e l w = (None, w\<lparr>console := console w @ [l]\<rparr>)"
  by (simp add: print_def)

lemma print_encoded:
  "stdout_encodes e (environ w) \<Longrightarrow> print e l w = (None, w\<lparr>console := console w @ [l]\<rparr>)"
  by (simp add: print_def)

lemma print_frame:
  "saved (snd (print e l w)) = saved w"
  "fs (snd (print e l w)) = fs w"
  "environ (snd (print e l w)) = environ w"
  "open_figs (snd (print e l w)) = open_figs w"
  by (simp_all add: print_def)

lemma prints_Cons: "prints e (l # ls) = andthen (print e l) (prints e ls)"
  by (rule ext) (simp add: andthen_def)

lemma for_figures_Cons:
  "for_figures e idx n ((name, func) # rest) =
     andthen (one_round e idx n name func) (for_figures e (Suc idx) n rest)"
  by (rule ext)
    (simp add: andthen_def one_round_def split: prod.splits option.splits)

lemma andthen_assoc: "andthen (andthen f g) h = andthen f (andthen g h)"
  by (rule ext) (simp add: andthen_def split: prod.splits option.splits)

lemma andthen_None: "f w = (None, w1) \<Longrightarrow> andthen f g w = g w1"
  by (simp add: andthen_def)

lemma andthen_Some: "f w = (Some x, w1) \<Longrightarrow> andthen f g w = (Some x, w1)"
  by (simp add: andthen_def)

lemma for_figures_append:
  "for_figures e idx n (pre @ post) =
     andthen (for_figures e idx n pre) (for_figures e (idx + length pre) n post)"
proof (induction pre arbitrary: idx)
  case Nil
  show ?case by (rule ext) (simp add: andthen_def)
next
  case (Cons a pre)
  obtain name func where a: "a = (name, func)" by (cases a)
  show ?case
    by (simp add: a for_figures_Cons Cons.IH andthen_assoc del: for_figures.simps(2))
qed

section \<open>The order of the writes\<close>

lemma emitsI:
  assumes "\<And>w. \<exists>ws. saved (snd (c w)) = saved w @ ws \<and> subseq (map fst ws) L"
  shows "emits L c"
  using assms by (simp add: emits_def)

lemma emitsD:
  assumes "emits L c"
  obtains ws where "saved (snd (c w)) = saved w @ ws" and "subseq (map fst ws) L"
  using assms by (auto simp add: emits_def)

lemma emits_same:
  assumes "\<And>w. saved (snd (c w)) = saved w"
  shows "emits L c"
  by (rule emitsI) (simp add: assms)

lemma emits_andthen:
  assumes a: "emits L1 c1" and b: "emits L2 c2"
  shows "emits (L1 @ L2) (andthen c1 c2)"
proof (rule emitsI)
  fix w
  obtain r w1 where c1: "c1 w = (r, w1)" by (cases "c1 w")
  from a obtain ws1 where s1: "saved (snd (c1 w)) = saved w @ ws1"
    and e1: "subseq (map fst ws1) L1"
    by (rule emitsD)
  show "\<exists>ws. saved (snd (andthen c1 c2 w)) = saved w @ ws \<and> subseq (map fst ws) (L1 @ L2)"
  proof (cases r)
    case (Some x)
    have "saved (snd (andthen c1 c2 w)) = saved w @ ws1"
      using s1 by (simp add: andthen_def c1 Some)
    moreover have "subseq (map fst ws1) (L1 @ L2)"
      using e1 by (rule list_emb_prefix)
    ultimately show ?thesis by blast
  next
    case None
    from b obtain ws2 where s2: "saved (snd (c2 w1)) = saved w1 @ ws2"
      and e2: "subseq (map fst ws2) L2"
      by (rule emitsD)
    have "saved (snd (andthen c1 c2 w)) = saved w @ (ws1 @ ws2)"
      using s1 s2 by (simp add: andthen_def c1 None)
    moreover have "subseq (map fst (ws1 @ ws2)) (L1 @ L2)"
      using list_emb_append_mono [OF e1 e2] by simp
    ultimately show ?thesis by blast
  qed
qed

lemma emits_print: "emits [] (print e l)"
  by (rule emits_same) (simp add: print_def)

lemma emits_prints: "emits [] (prints e ls)"
proof (induction ls)
  case Nil
  show ?case by (rule emits_same) simp
next
  case (Cons l ls)
  show ?case
    unfolding prints_Cons using emits_andthen [OF emits_print Cons.IH] by simp
qed

lemma subseq_fig_writes:
  "subseq (map fst (fig_writes e v fig name F)) [png_path name, pdf_path name]"
  by (simp add: fig_writes_def)

lemma emits_figure_function:
  assumes f: "\<And>e w. func e w = layout_save_close e fig name (drawn r w)"
  shows "emits [png_path name, pdf_path name] (func e)"
proof (rule emitsI)
  fix w
  have "saved (snd (func e w)) = saved w @ fig_writes e (environ w) fig name (fs w)"
    by (simp add: f layout_save_close_eq)
  then show "\<exists>ws. saved (snd (func e w)) = saved w @ ws
      \<and> subseq (map fst ws) [png_path name, pdf_path name]"
    using subseq_fig_writes by blast
qed

lemma one_round_saved:
  "saved (snd (one_round e idx n name func w))
     = saved (snd (func e (snd (print e (Generating idx n name) w))))"
  by (simp add: one_round_def andthen_def print_def traceback_print_exc_def
      split: prod.splits option.splits)

lemma emits_one_round:
  assumes "emits L (func e)"
  shows "emits L (one_round e idx n name func)"
proof (rule emitsI)
  fix w
  let ?w0 = "snd (print e (Generating idx n name) w)"
  from assms obtain ws where "saved (snd (func e ?w0)) = saved ?w0 @ ws"
    and "subseq (map fst ws) L"
    by (rule emitsD)
  then show "\<exists>ws. saved (snd (one_round e idx n name func w)) = saved w @ ws
      \<and> subseq (map fst ws) L"
    by (auto simp add: one_round_saved print_frame)
qed

lemma emits_two_figures:
  assumes "emits L1 (f1 e)" and "emits L2 (f2 e)"
  shows "emits (L1 @ L2) (for_figures e idx n [(n1, f1), (n2, f2)])"
proof -
  have "emits [] (for_figures e (Suc (Suc idx)) n [])"
    by (rule emits_same) simp
  from emits_andthen
    [OF emits_one_round [where func = f2 and e = e and idx = "Suc idx" and n = n and name = n2,
          OF assms(2)] this]
  have "emits L2 (for_figures e (Suc idx) n [(n2, f2)])"
    by (simp add: for_figures_Cons del: for_figures.simps(2))
  from emits_andthen
    [OF emits_one_round [where func = f1 and e = e and idx = idx and n = n and name = n1,
          OF assms(1)] this]
  show ?thesis
    by (simp add: for_figures_Cons del: for_figures.simps(2))
qed

lemma emits_main:
  "emits [png_path ''figure3_system_architecture'', pdf_path ''figure3_system_architecture'',
          png_path ''figure4_haa_uq_mechanism'', pdf_path ''figure4_haa_uq_mechanism'']
     (main e)"
proof -
  have "emits ([png_path ''figure3_system_architecture'', pdf_path ''figure3_system_architecture'']
       @ [png_path ''figure4_haa_uq_mechanism'', pdf_path ''figure4_haa_uq_mechanism''])
     (for_figures e 1 (length figures) figures)"
    unfolding figures_def
    by (rule emits_two_figures
        [where ?f1.0 = plot_system_architecture and ?f2.0 = plot_haa_uq_mechanism,
          OF emits_figure_function
              [where func = plot_system_architecture and r = "\<lambda>r. r",
                OF plot_system_architecture_eq]
            emits_figure_function
              [where func = plot_haa_uq_mechanism and r = "after_seed haa_uq_draws",
                OF plot_haa_uq_mechanism_eq]])
  from emits_andthen [OF emits_prints emits_andthen [OF this emits_prints]]
  show ?thesis by (simp add: main_def)
qed

lemma emits_main_block: "emits output_paths (main_block e)"
proof -
  have "emits ([png_path ''figure5_pi_cmdr_pipeline'', pdf_path ''figure5_pi_cmdr_pipeline'']
       @ [png_path ''figure6_lpc_curriculum'', pdf_path ''figure6_lpc_curriculum''])
     (for_figures e 3 4 additional_figures)"
    unfolding additional_figures_def
    by (rule emits_two_figures
        [where ?f1.0 = plot_pi_cmdr_pipeline and ?f2.0 = plot_lpc_curriculum,
          OF emits_figure_function
              [where func = plot_pi_cmdr_pipeline and r = "after_seed pi_cmdr_draws",
                OF plot_pi_cmdr_pipeline_eq]
            emits_figure_function
              [where func = plot_lpc_curriculum and r = "after_seed lpc_draws",
                OF plot_lpc_curriculum_eq]])
  from emits_andthen [OF emits_main
      emits_andthen [OF emits_prints emits_andthen [OF this emits_prints]]]
  show ?thesis by (simp add: main_block_def output_paths_def)
qed

lemma emits_script: "emits output_paths (script e)"
proof -
  have "emits [] (os_makedirs e OUTPUT_DIR)"
    by (rule emits_same) (simp add: os_makedirs_def split: option.splits node.splits)
  from emits_andthen [OF this emits_main_block]
  have b: "emits output_paths (andthen (os_makedirs e OUTPUT_DIR) (main_block e))"
    by simp
  show ?thesis
  proof (rule emitsI)
    fix w
    from b obtain ws
      where "saved (snd (andthen (os_makedirs e OUTPUT_DIR) (main_block e) w)) = saved w @ ws"
        and "subseq (map fst ws) output_paths"
      by (rule emitsD)
    then show "\<exists>ws. saved (snd (script e w)) = saved w @ ws \<and> subseq (map fst ws) output_paths"
      by (auto simp add: script_def traceback_print_exc_def split: option.splits prod.splits)
  qed
qed

section \<open>The claims\<close>

text \<open>
  C1. Each of the four figure functions, called where the output directory exists, neither
  of its two output paths is a directory, and neither the library nor the operating
  system raises, makes exactly one call of \<open>save_figure\<close> that writes exactly two
  files, first the PNG and then the PDF named by the figure's identifier in the output
  directory, and changes no other path of the file system. Both files have non-zero size,
  provided that the backends never produce an empty file. The call then prints one
  \<open>Saved\<close> line with the identifier and returns normally; only on a standard output that
  cannot encode the mark of that line does this last \<^verbatim>\<open>print\<close> raise, after both files
  are written.
\<close>

theorem each_figure_saves_one_pair:
  assumes "(name, func) \<in> set figure_functions"
    and "fs w OUTPUT_DIR = Some Dir"
    and "fs w (png_path name) \<noteq> Some Dir" and "fs w (pdf_path name) \<noteq> Some Dir"
    and "lib_raises e (environ w) name = None"
    and "os_raises e (png_path name) (fs w (png_path name) \<noteq> None) = None"
    and "os_raises e (pdf_path name) (fs w (pdf_path name) \<noteq> None) = None"
    and "\<forall>f fig t. encode e f fig t \<noteq> []"
  shows "fst (func e w) = (if stdout_encodes e (environ w) then None else Some UnicodeEncodeError)
    \<and> console (snd (func e w))
        = console w @ (if stdout_encodes e (environ w) then [Saved name] else [])
    \<and> map (\<lambda>(p, f, fig). (p, f)) (saved (snd (func e w)))
        = map (\<lambda>(p, f, fig). (p, f)) (saved w) @ [(png_path name, PNG), (pdf_path name, PDF)]
    \<and> (\<exists>c. fs (snd (func e w)) (png_path name) = Some (File c) \<and> c \<noteq> [])
    \<and> (\<exists>c. fs (snd (func e w)) (pdf_path name) = Some (File c) \<and> c \<noteq> [])
    \<and> (\<forall>p. p \<noteq> png_path name \<and> p \<noteq> pdf_path name \<longrightarrow> fs (snd (func e w)) p = fs w p)"
proof -
  from assms(1) obtain fig r
    where f: "\<And>e w. func e w = layout_save_close e fig name (drawn r w)"
    by (rule figure_functions_cases) blast
  have c: "clear e (environ w) name (fs w)"
    using assms(2-7) by (simp add: clear_def)
  show ?thesis
    using assms(8)
    by (simp add: f layout_save_close_eq fig_result_def fig_clear [OF c] store_def)
qed

theorem each_figure_saves_one_pair_witness:
  "fst (plot_system_architecture plain_env ready) = None
    \<and> console (snd (plot_system_architecture plain_env ready))
        = console ready @ [Saved ''figure3_system_architecture'']
    \<and> map (\<lambda>(p, f, fig). (p, f)) (saved (snd (plot_system_architecture plain_env ready)))
        = map (\<lambda>(p, f, fig). (p, f)) (saved ready)
          @ [(png_path ''figure3_system_architecture'', PNG),
             (pdf_path ''figure3_system_architecture'', PDF)]
    \<and> (\<exists>c. fs (snd (plot_system_architecture plain_env ready))
              (png_path ''figure3_system_architecture'') = Some (File c) \<and> c \<noteq> [])
    \<and> (\<exists>c. fs (snd (plot_system_architecture plain_env ready))
              (pdf_path ''figure3_system_architecture'') = Some (File c) \<and> c \<noteq> [])
    \<and> fs (snd (plot_system_architecture plain_env ready)) OUTPUT_DIR = fs ready OUTPUT_DIR"
proof -
  have m: "(''figure3_system_architecture'', plot_system_architecture) \<in> set figure_functions"
    by (simp add: figure_functions_def)
  have "fst (plot_system_architecture plain_env ready)
      = (if stdout_encodes plain_env (environ ready) then None else Some UnicodeEncodeError)
    \<and> console (snd (plot_system_architecture plain_env ready))
        = console ready
          @ (if stdout_encodes plain_env (environ ready) then [Saved ''figure3_system_architecture'']
             else [])
    \<and> map (\<lambda>(p, f, fig). (p, f)) (saved (snd (plot_system_architecture plain_env ready)))
        = map (\<lambda>(p, f, fig). (p, f)) (saved ready)
          @ [(png_path ''figure3_system_architecture'', PNG),
             (pdf_path ''figure3_system_architecture'', PDF)]
    \<and> (\<exists>c. fs (snd (plot_system_architecture plain_env ready))
              (png_path ''figure3_system_architecture'') = Some (File c) \<and> c \<noteq> [])
    \<and> (\<exists>c. fs (snd (plot_system_architecture plain_env ready))
              (pdf_path ''figure3_system_architecture'') = Some (File c) \<and> c \<noteq> [])
    \<and> (\<forall>p. p \<noteq> png_path ''figure3_system_architecture''
            \<and> p \<noteq> pdf_path ''figure3_system_architecture''
          \<longrightarrow> fs (snd (plot_system_architecture plain_env ready)) p = fs ready p)"
    by (rule each_figure_saves_one_pair [OF m]) (simp_all add: ready_facts plain_env_facts)
  then show ?thesis by (simp add: ready_facts plain_env_facts)
qed

text \<open>
  Against C3 as stated: the total shown in the training timeline of Figure 6 is not a
  literal of the source. It is the last element of \<^verbatim>\<open>np.cumsum([0] + episodes_per_stage)\<close>,
  computed when the figure is generated; its value 1140 is the sum of the five stage
  lengths and is none of the literals it is computed from.
\<close>

theorem displayed_total_is_computed:
  "saved (snd (plot_lpc_curriculum plain_env ready))
     = [(png_path ''figure6_lpc_curriculum'', PNG, lpc_figure),
        (pdf_path ''figure6_lpc_curriculum'', PDF, lpc_figure)]
   \<and> total_label \<in> set (annotations lpc_figure)
   \<and> total_label = [Txt ''Total: '', Num 1140, Txt '' episodes (vs 2000 uniform)'']
   \<and> last (np_cumsum ([0] @ episodes_per_stage)) = 1140
   \<and> sum_list episodes_per_stage = 1140
   \<and> (1140 :: int) \<notin> set ([0] @ episodes_per_stage)"
proof -
  have "total_label = [Txt ''Total: '', Num 1140, Txt '' episodes (vs 2000 uniform)'']"
    by (simp add: total_label_def cumulative_eq)
  moreover have "total_label \<in> set (annotations lpc_figure)"
    by (simp add: lpc_figure_def)
  moreover have "last (np_cumsum ([0] @ episodes_per_stage)) = 1140"
    using cumulative_eq by (simp add: cumulative_def)
  moreover have "sum_list episodes_per_stage = 1140 \<and> (1140 :: int) \<notin> set ([0] @ episodes_per_stage)"
    by (simp add: episodes_per_stage_def)
  ultimately show ?thesis
    using ready_saved_lpc by simp
qed

text \<open>
  C3, amended. The values that the figures interpolate into their annotations are these,
  for any figure that a figure function saves. Figure 6 shows, per stage, the stage
  number \<open>i + 1\<close> and the literal stage length, then the total computed at generation
  time as the last cumulative sum of the stage lengths, then the three literal bar
  labels. Figure 4 shows three floating-point values computed at generation time
  (\<^verbatim>\<open>entropy_std\<close>, \<^verbatim>\<open>entropy_haa\<close> and the relative drop between them). Figures 3 and 5
  interpolate nothing: their numbers are literal text.
\<close>

theorem interpolated_values_of_each_figure:
  assumes "(name, func) \<in> set figure_functions"
    and "saved (snd (func e w)) = saved w @ ws"
    and "(p, f, fig) \<in> set ws"
  shows "displayed_ints fig =
      (if name = ''figure6_lpc_curriculum''
       then concat (map (\<lambda>i. [int i + 1, episodes_per_stage ! i]) [0, 1, 2, 3, 4])
            @ [last (np_cumsum ([0] @ episodes_per_stage))] @ episodes_required
       else [])
    \<and> displayed_floats fig =
      (if name = ''figure4_haa_uq_mechanism''
       then [''entropy_std'', ''entropy_haa'', ''(entropy_std-entropy_haa)/entropy_std*100'']
       else [])"
proof -
  have c: "concat (map (\<lambda>i. [int i + 1, episodes_per_stage ! i]) [0, 1, 2, 3, 4])
      @ [last (np_cumsum ([0] @ episodes_per_stage))] @ episodes_required
      = [1, 180, 2, 200, 3, 260, 4, 280, 5, 220, 1140, 2000, 1420, 1160]"
    using cumulative_eq
    by (simp add: cumulative_def episodes_per_stage_def episodes_required_def)
  from assms(1) have
    "name = ''figure3_system_architecture'' \<and> func = plot_system_architecture
     \<or> name = ''figure4_haa_uq_mechanism'' \<and> func = plot_haa_uq_mechanism
     \<or> name = ''figure5_pi_cmdr_pipeline'' \<and> func = plot_pi_cmdr_pipeline
     \<or> name = ''figure6_lpc_curriculum'' \<and> func = plot_lpc_curriculum"
    by (simp add: figure_functions_def)
  then show ?thesis
  proof (elim disjE conjE)
    assume n: "name = ''figure3_system_architecture''" and g: "func = plot_system_architecture"
    have "fig = system_architecture_figure"
      using assms(2,3) unfolding n g
      by (rule saved_figure [OF plot_system_architecture_eq])
    then show ?thesis by (simp add: n other_displayed)
  next
    assume n: "name = ''figure4_haa_uq_mechanism''" and g: "func = plot_haa_uq_mechanism"
    have "fig = haa_uq_figure"
      using assms(2,3) unfolding n g
      by (rule saved_figure [OF plot_haa_uq_mechanism_eq])
    then show ?thesis by (simp add: n haa_uq_displayed)
  next
    assume n: "name = ''figure5_pi_cmdr_pipeline''" and g: "func = plot_pi_cmdr_pipeline"
    have "fig = pi_cmdr_figure"
      using assms(2,3) unfolding n g
      by (rule saved_figure [OF plot_pi_cmdr_pipeline_eq])
    then show ?thesis by (simp add: n other_displayed)
  next
    assume n: "name = ''figure6_lpc_curriculum''" and g: "func = plot_lpc_curriculum"
    have "fig = lpc_figure"
      using assms(2,3) unfolding n g
      by (rule saved_figure [OF plot_lpc_curriculum_eq])
    then show ?thesis by (simp only: n c lpc_displayed) simp
  qed
qed

theorem interpolated_values_of_each_figure_witness:
  "displayed_ints lpc_figure
     = concat (map (\<lambda>i. [int i + 1, episodes_per_stage ! i]) [0, 1, 2, 3, 4])
       @ [last (np_cumsum ([0] @ episodes_per_stage))] @ episodes_required
   \<and> displayed_floats lpc_figure = []
   \<and> last (np_cumsum ([0] @ episodes_per_stage)) = 1140"
proof -
  have m: "(''figure6_lpc_curriculum'', plot_lpc_curriculum) \<in> set figure_functions"
    by (simp add: figure_functions_def)
  have s: "saved (snd (plot_lpc_curriculum plain_env ready)) = saved ready
      @ [(png_path ''figure6_lpc_curriculum'', PNG, lpc_figure),
         (pdf_path ''figure6_lpc_curriculum'', PDF, lpc_figure)]"
    by (simp add: ready_saved_lpc ready_facts)
  have i: "(png_path ''figure6_lpc_curriculum'', PNG, lpc_figure)
      \<in> set [(png_path ''figure6_lpc_curriculum'', PNG, lpc_figure),
             (pdf_path ''figure6_lpc_curriculum'', PDF, lpc_figure)]"
    by simp
  have "last (np_cumsum ([0] @ episodes_per_stage)) = 1140"
    using cumulative_eq by (simp add: cumulative_def)
  then show ?thesis
    using interpolated_values_of_each_figure [OF m s i] by simp
qed

text \<open>
  Against C4 as stated: the figure functions share more than a seed. pyplot's registry
  of open figures is common to them: where the call for Figure 3 has raised and left
  its figure open, the figure of the next function gets the number 2 and not 1. And
  numpy's generator is common to them: the function of Figure 3, which does not seed,
  leaves the generator as it found it, that is as the function of Figure 6 has left it
  when that one ran before.
\<close>

theorem registry_and_generator_are_shared:
  "open_figs (snd (plot_haa_uq_mechanism stuck_env ready)) = [1]
   \<and> open_figs (snd (plot_haa_uq_mechanism stuck_env
        (snd (plot_system_architecture stuck_env ready)))) = [1, 2]
   \<and> np_random (snd (plot_system_architecture plain_env ready)) = Rng (Entropy 0) []
   \<and> np_random (snd (plot_system_architecture plain_env
        (snd (plot_lpc_curriculum plain_env ready)))) = Rng (Seed 42) lpc_draws"
  by (simp add: plot_haa_uq_mechanism_eq plot_system_architecture_eq plot_lpc_curriculum_eq
      layout_save_close_eq stuck_result drawn_def after_seed_def ready_facts)

text \<open>
  C4, amended. The figure that a figure function saves does not depend on the state in
  which it is called. For any two completed calls of the same function, in whatever
  environment, with whatever generator state, open figures, console and files (in
  particular before or after any other figure function), both files of both calls hold
  one and the same figure object, and every random array in it is drawn from the
  generator seeded with 42. The functions are not free of shared state, though: each
  works on pyplot's registry of open figures, which a completed call leaves as it found
  it, and on numpy's global generator, which a completed call leaves either as it found
  it or seeded with 42 and advanced by its draws.
\<close>

theorem figure_content_independent_of_state:
  assumes "(name, func) \<in> set figure_functions"
    and "fst (func e1 w1) = None" and "fst (func e2 w2) = None"
  shows "(\<exists>fig. list_all seeded_42 (arrays fig)
      \<and> saved (snd (func e1 w1)) = saved w1 @ [(png_path name, PNG, fig), (pdf_path name, PDF, fig)]
      \<and> saved (snd (func e2 w2)) = saved w2 @ [(png_path name, PNG, fig), (pdf_path name, PDF, fig)])
    \<and> open_figs (snd (func e1 w1)) = open_figs w1
    \<and> (np_random (snd (func e1 w1)) = np_random w1
        \<or> (\<exists>ds. np_random (snd (func e1 w1)) = Rng (Seed 42) ds))"
proof -
  from assms(1) obtain fig r
    where f: "\<And>e w. func e w = layout_save_close e fig name (drawn r w)"
      and s: "list_all seeded_42 (arrays fig)"
      and r: "r = (\<lambda>x. x) \<or> (\<exists>ds. r = after_seed ds)"
    by (rule figure_functions_cases) blast
  from assms(2) have n: "fig_result e1 (environ w1) name (fs w1) = None"
    by (simp add: f layout_save_close_eq)
  from assms(3) have b: "fig_raises e2 (environ w2) name (fs w2) = None"
    by (simp add: f layout_save_close_eq fig_result_None)
  have a: "fig_raises e1 (environ w1) name (fs w1) = None"
    by (rule fig_result_None [OF n])
  have "\<exists>fig. list_all seeded_42 (arrays fig)
      \<and> saved (snd (func e1 w1)) = saved w1 @ [(png_path name, PNG, fig), (pdf_path name, PDF, fig)]
      \<and> saved (snd (func e2 w2)) = saved w2 @ [(png_path name, PNG, fig), (pdf_path name, PDF, fig)]"
    using s by (intro exI [of _ fig])
      (simp add: f layout_save_close_eq fig_raises_None_writes [OF a] fig_raises_None_writes [OF b])
  moreover have "open_figs (snd (func e1 w1)) = open_figs w1"
    by (simp add: f layout_save_close_eq n drawn_def)
  moreover have "np_random (snd (func e1 w1)) = np_random w1
      \<or> (\<exists>ds. np_random (snd (func e1 w1)) = Rng (Seed 42) ds)"
    using r by (auto simp add: f layout_save_close_eq drawn_def after_seed_def)
  ultimately show ?thesis by blast
qed

theorem figure_content_independent_of_state_witness:
  "(\<exists>fig. list_all seeded_42 (arrays fig)
    \<and> saved (snd (plot_haa_uq_mechanism plain_env ready))
        = saved ready @ [(png_path ''figure4_haa_uq_mechanism'', PNG, fig),
                         (pdf_path ''figure4_haa_uq_mechanism'', PDF, fig)]
    \<and> saved (snd (plot_haa_uq_mechanism plain_env (snd (plot_lpc_curriculum plain_env ready))))
        = saved (snd (plot_lpc_curriculum plain_env ready))
          @ [(png_path ''figure4_haa_uq_mechanism'', PNG, fig),
             (pdf_path ''figure4_haa_uq_mechanism'', PDF, fig)])
   \<and> open_figs (snd (plot_haa_uq_mechanism plain_env ready)) = open_figs ready
   \<and> (np_random (snd (plot_haa_uq_mechanism plain_env ready)) = np_random ready
       \<or> (\<exists>ds. np_random (snd (plot_haa_uq_mechanism plain_env ready)) = Rng (Seed 42) ds))"
proof -
  let ?w2 = "snd (plot_lpc_curriculum plain_env ready)"
  have m: "(''figure4_haa_uq_mechanism'', plot_haa_uq_mechanism) \<in> set figure_functions"
    by (simp add: figure_functions_def)
  have a: "fst (plot_haa_uq_mechanism plain_env ready) = None"
    by (simp add: plot_haa_uq_mechanism_eq layout_save_close_eq ready_facts)
  have "clear plain_env Map.empty ''figure4_haa_uq_mechanism'' (fs ?w2)"
    by (simp add: plot_lpc_curriculum_eq layout_save_close_eq fig_clear(2) [OF clear_ready]
        store_def clear_def ready_facts plain_env_facts)
  then have "fig_result plain_env Map.empty ''figure4_haa_uq_mechanism'' (fs ?w2) = None"
    by (simp add: fig_result_def fig_clear(1) plain_env_facts)
  moreover have "environ ?w2 = Map.empty"
    by (simp add: plot_lpc_curriculum_eq layout_save_close_eq ready_facts)
  ultimately have b: "fst (plot_haa_uq_mechanism plain_env ?w2) = None"
    by (simp add: plot_haa_uq_mechanism_eq layout_save_close_eq)
  show ?thesis
    by (rule figure_content_independent_of_state [OF m a b])
qed

text \<open>
  C7. In every run of the script, the completed file writes, in the order in which they
  happen, form a subsequence of the eight output paths in figure order (PNG then PDF of
  Figure 3, of Figure 4, of Figure 5, of Figure 6): no write of a figure comes before a
  write of an earlier figure, and the writes of two figures do not interleave.
\<close>

theorem writes_follow_figure_order:
  "subseq (map fst (saved (snd (run e F k a v c)))) output_paths"
proof -
  from emits_script obtain ws
    where "saved (snd (script e (boot F k a v c))) = saved (boot F k a v c) @ ws"
      and "subseq (map fst ws) output_paths"
    by (rule emitsD)
  then show ?thesis by (simp add: run_def boot_def)
qed

text \<open>
  C9. Within \<open>save_figure\<close> the PNG file is written before the PDF file: when the PNG
  write has succeeded and the PDF write raises, \<open>save_figure\<close> raises that exception, the
  PNG file of the figure is on disk with the encoded figure, whatever was at the PDF path
  is untouched, and the trace of writes has gained the PNG alone. A failed figure can so
  leave a PNG without its PDF.
\<close>

theorem png_written_before_pdf:
  assumes "savefig e fig (png_path name) w = (None, w1)"
    and "savefig e fig (pdf_path name) w1 = (Some x, w2)"
  shows "save_figure e fig name w = (Some x, w2)
    \<and> fs w2 (png_path name) = Some (File (encode e PNG fig (stamp e (environ w) (clock w))))
    \<and> fs w2 (pdf_path name) = fs w (pdf_path name)
    \<and> saved w2 = saved w @ [(png_path name, PNG, fig)]"
proof -
  from assms(1) have w1: "w1 = w\<lparr>fs := (fs w)(png_path name \<mapsto>
        File (encode e PNG fig (stamp e (environ w) (clock w)))),
      saved := saved w @ [(png_path name, PNG, fig)]\<rparr>"
    by (auto simp add: savefig_def split: option.splits)
  from assms(2) have w2: "w2 = w1"
    by (auto simp add: savefig_def split: option.splits)
  show ?thesis
    using assms by (simp add: save_figure_def w2) (simp add: w1)
qed

theorem png_written_before_pdf_witness:
  "save_figure plain_env system_architecture_figure ''figure3_system_architecture'' blocked
     = (Some (IsADirectoryError (pdf_path ''figure3_system_architecture'')),
        snd (savefig plain_env system_architecture_figure (png_path ''figure3_system_architecture'') blocked))
   \<and> fs (snd (savefig plain_env system_architecture_figure (png_path ''figure3_system_architecture'') blocked))
        (png_path ''figure3_system_architecture'')
       = Some (File (encode plain_env PNG system_architecture_figure
           (stamp plain_env (environ blocked) (clock blocked))))
   \<and> fs (snd (savefig plain_env system_architecture_figure (png_path ''figure3_system_architecture'') blocked))
        (pdf_path ''figure3_system_architecture'') = fs blocked (pdf_path ''figure3_system_architecture'')
   \<and> saved (snd (savefig plain_env system_architecture_figure (png_path ''figure3_system_architecture'') blocked))
        = saved blocked @ [(png_path ''figure3_system_architecture'', PNG, system_architecture_figure)]"
proof -
  let ?n = "''figure3_system_architecture''"
  let ?w1 = "snd (savefig plain_env system_architecture_figure (png_path ?n) blocked)"
  have a: "savefig plain_env system_architecture_figure (png_path ?n) blocked = (None, ?w1)"
    by (simp add: savefig_def open_wb_def blocked_facts plain_env_facts)
  have b: "savefig plain_env system_architecture_figure (pdf_path ?n) ?w1
      = (Some (IsADirectoryError (pdf_path ?n)), ?w1)"
    by (simp add: savefig_def open_wb_def blocked_facts plain_env_facts)
  show ?thesis
    by (rule png_written_before_pdf [OF a b])
qed

text \<open>
  C10. Every figure function that completes has closed its figure: the registry of open
  figures is then exactly what it was before the call. A call that raises leaves the
  figures open before it untouched and its own figure open, so no figure created by a
  completed figure function remains open, at whatever point of a run the function is
  called.
\<close>

theorem figure_closed_on_completion:
  assumes "(name, func) \<in> set figure_functions"
  shows "open_figs (snd (func e w)) =
     (case fst (func e w) of
        None \<Rightarrow> open_figs w
      | Some x \<Rightarrow> open_figs w @ [Suc (fold max (open_figs w) 0)])"
proof -
  from assms obtain fig r
    where f: "\<And>e w. func e w = layout_save_close e fig name (drawn r w)"
    by (rule figure_functions_cases) blast
  show ?thesis
    by (simp add: f layout_save_close_eq drawn_def split: option.splits)
qed

theorem figure_closed_on_completion_witness:
  "fst (plot_system_architecture plain_env ready) = None
   \<and> open_figs (snd (plot_system_architecture plain_env ready)) = []
   \<and> fst (plot_system_architecture plain_env blocked)
       = Some (IsADirectoryError (pdf_path ''figure3_system_architecture''))
   \<and> open_figs (snd (plot_system_architecture plain_env blocked)) = [1]"
proof -
  have m: "(''figure3_system_architecture'', plot_system_architecture) \<in> set figure_functions"
    by (simp add: figure_functions_def)
  have a: "fst (plot_system_architecture plain_env ready) = None"
    by (simp add: plot_system_architecture_eq layout_save_close_eq ready_facts)
  have b: "fst (plot_system_architecture plain_env blocked)
      = Some (IsADirectoryError (pdf_path ''figure3_system_architecture''))"
    by (simp add: plot_system_architecture_eq layout_save_close_eq fig_result_blocked)
  show ?thesis
    using figure_closed_on_completion [OF m, of plain_env ready]
      figure_closed_on_completion [OF m, of plain_env blocked]
    by (simp add: a b ready_facts blocked_facts)
qed

end
